theory Spec2Isabelle
  imports Complex_Main
begin

section \<open>Python primitives used by the service-case pipeline\<close>

text \<open>
  Strings are byte lists holding ASCII text.  \<open>lower\<close> is \<^verbatim>\<open>str.lower()\<close> on
  such text, \<open>substr_in sub s\<close> is the Python expression \<^verbatim>\<open>sub in s\<close> on two
  strings, and \<open>str_int\<close> is \<^verbatim>\<open>str(n)\<close> for an integer.
\<close>

definition lower_char :: "char \<Rightarrow> char" where
  "lower_char c =
     (let n = (of_char c :: nat) in if 65 \<le> n \<and> n \<le> 90 then char_of (n + 32) else c)"

definition lower :: "string \<Rightarrow> string" where
  "lower s = map lower_char s"

fun starts_with :: "string \<Rightarrow> string \<Rightarrow> bool" where
  "starts_with s [] = True"
| "starts_with [] (p # ps) = False"
| "starts_with (c # cs) (p # ps) = (c = p \<and> starts_with cs ps)"

fun substr_in :: "string \<Rightarrow> string \<Rightarrow> bool" where
  "substr_in sub [] = (sub = [])"
| "substr_in sub (c # cs) = (starts_with (c # cs) sub \<or> substr_in sub cs)"

definition digit_char :: "nat \<Rightarrow> char" where
  "digit_char d = char_of (48 + d)"

function str_nat :: "nat \<Rightarrow> string" where
  "str_nat n = (if n < 10 then [digit_char n] else str_nat (n div 10) @ [digit_char (n mod 10)])"
  by pat_completeness auto
termination
  by (relation "measure id") auto

declare str_nat.simps [simp del]

definition str_int :: "int \<Rightarrow> string" where
  "str_int i = (if i < 0 then CHR ''-'' # str_nat (nat (- i)) else str_nat (nat i))"

section \<open>The case record and the triage stage\<close>

text \<open>
  The four inputs of \<^verbatim>\<open>ServiceCaseState\<close> (agents.py); the request model of main.py
  types them as \<^verbatim>\<open>str\<close>, \<^verbatim>\<open>str\<close>, \<^verbatim>\<open>int\<close>, \<^verbatim>\<open>str\<close>.  The later stages read
  further keys, added by the extensions of this record below.
\<close>

record case_inputs =
  device_type :: string
  brand :: string
  age :: int
  error_description :: string

record triage_decision =
  td_status :: string
  td_route :: string
  td_reasoning :: string

definition safety_keywords :: "string list" where
  "safety_keywords = [''smoke'', ''fire'', ''burning'', ''electric shock'', ''gas leak'']"

text \<open>
  \<^verbatim>\<open>triage_agent\<close> (agents.py, lines 126-183), branch by branch and in the order
  of the source: the mandatory-field test (an empty string and the age 0 are falsy),
  the warranty route, the old-device route, the safety keywords, the normal route.
\<close>

definition triage_agent :: "'a case_inputs_scheme \<Rightarrow> triage_decision" where
  "triage_agent state =
     (if device_type state = [] \<or> brand state = [] \<or> age state = 0
         \<or> error_description state = []
      then \<lparr>td_status = ''incomplete'', td_route = ''manual_review'',
            td_reasoning = ''Missing mandatory field information''\<rparr>
      else
        let a = age state;
            dt = lower (device_type state);
            error_desc = lower (error_description state)
        in if a \<le> 1 \<and> dt \<in> set [''oven'', ''refrigerator'']
           then \<lparr>td_status = ''complete'', td_route = ''manufacturer'',
                 td_reasoning = ''Device age '' @ str_int a
                                @ '' year(s) - likely under manufacturer warranty''\<rparr>
           else if a \<ge> 15
           then \<lparr>td_status = ''complete'', td_route = ''replacement_focus'',
                 td_reasoning = ''Device age '' @ str_int a
                                @ '' years exceeds typical lifespan''\<rparr>
           else if list_ex (\<lambda>keyword. substr_in keyword error_desc) safety_keywords
           then \<lparr>td_status = ''complete'', td_route = ''urgent_manufacturer'',
                 td_reasoning =
                   ''Safety concern detected - requires immediate manufacturer attention''\<rparr>
           else \<lparr>td_status = ''complete'', td_route = ''normal'',
                 td_reasoning = ''Standard service case - proceeding with full analysis''\<rparr>)"

section \<open>Failure tables, catalog and the random source\<close>

text \<open>
  \<^verbatim>\<open>str.split()\<close> without arguments: the maximal runs of non-whitespace characters.
\<close>

definition is_space :: "char \<Rightarrow> bool" where
  "is_space c = ((of_char c :: nat) \<in> set [32, 9, 10, 11, 12, 13, 28, 29, 30, 31])"

fun split_from :: "string \<Rightarrow> string \<Rightarrow> string list" where
  "split_from cur [] = (if cur = [] then [] else [cur])"
| "split_from cur (c # cs) =
     (if is_space c then (if cur = [] then split_from [] cs else cur # split_from [] cs)
      else split_from (cur @ [c]) cs)"

definition split_ws :: "string \<Rightarrow> string list" where
  "split_ws s = split_from [] s"

text \<open>
  Floats are modelled by the rational numbers their literals denote, with exact
  arithmetic.  \<open>py_pow x n\<close> is \<^verbatim>\<open>x ** n\<close> for a float and an integer exponent.
\<close>

definition py_pow :: "rat \<Rightarrow> int \<Rightarrow> rat" where
  "py_pow x n = (if 0 \<le> n then x ^ nat n else (1 / x) ^ nat (- n))"

record error_info =
  ei_description :: string
  ei_repair_cost :: int
  ei_success_rate :: rat

record device_data =
  common_errors :: "(string \<times> error_info) list"
  warranty_years :: int
  avg_lifespan :: int

definition APPLIANCE_DATA :: "(string \<times> (string \<times> device_data) list) list" where
  "APPLIANCE_DATA =
    [(''cooktop'',
       [(''V-Zug'',
          \<lparr>common_errors =
             [(''E26'', \<lparr>ei_description = ''Water in machine, pump not draining'',
                        ei_repair_cost = 180, ei_success_rate = 95 / 100\<rparr>),
              (''F7_E3'', \<lparr>ei_description = ''Heating element failure'',
                          ei_repair_cost = 220, ei_success_rate = 90 / 100\<rparr>),
              (''power_issue'', \<lparr>ei_description = ''No power/not turning on'',
                                ei_repair_cost = 150, ei_success_rate = 85 / 100\<rparr>)],
           warranty_years = 2, avg_lifespan = 12\<rparr>),
        (''Miele'',
          \<lparr>common_errors =
             [(''heating_failure'', \<lparr>ei_description = ''Uneven heating'',
                                    ei_repair_cost = 280, ei_success_rate = 88 / 100\<rparr>),
              (''display_error'', \<lparr>ei_description = ''Display not working'',
                                  ei_repair_cost = 320, ei_success_rate = 75 / 100\<rparr>),
              (''sensor_fault'', \<lparr>ei_description = ''Temperature sensor malfunction'',
                                 ei_repair_cost = 200, ei_success_rate = 92 / 100\<rparr>)],
           warranty_years = 2, avg_lifespan = 15\<rparr>)]),
     (''dishwasher'',
       [(''V-Zug'',
          \<lparr>common_errors =
             [(''water_leak'', \<lparr>ei_description = ''Water leaking from door'',
                               ei_repair_cost = 160, ei_success_rate = 94 / 100\<rparr>),
              (''not_cleaning'', \<lparr>ei_description = ''Poor cleaning performance'',
                                 ei_repair_cost = 120, ei_success_rate = 90 / 100\<rparr>),
              (''pump_noise'', \<lparr>ei_description = ''Unusual pump noise'',
                               ei_repair_cost = 240, ei_success_rate = 85 / 100\<rparr>)],
           warranty_years = 2, avg_lifespan = 10\<rparr>)]),
     (''oven'',
       [(''Siemens'',
          \<lparr>common_errors =
             [(''door_seal'', \<lparr>ei_description = ''Door seal damaged'',
                              ei_repair_cost = 200, ei_success_rate = 95 / 100\<rparr>),
              (''heating_element'', \<lparr>ei_description = ''Heating element burned out'',
                                    ei_repair_cost = 300, ei_success_rate = 88 / 100\<rparr>),
              (''temperature_control'', \<lparr>ei_description = ''Temperature not accurate'',
                                        ei_repair_cost = 250, ei_success_rate = 90 / 100\<rparr>)],
           warranty_years = 2, avg_lifespan = 12\<rparr>)])]"

record product =
  p_brand :: string
  p_model :: string
  p_price :: int
  p_margin :: int
  p_stock :: string
  p_energy_rating :: string
  p_features :: "string list"

definition REPLACEMENT_PRODUCTS :: "(string \<times> product list) list" where
  "REPLACEMENT_PRODUCTS =
    [(''cooktop'',
       [\<lparr>p_brand = ''V-Zug'', p_model = ''AdoraID V6000 Supreme'', p_price = 2400,
         p_margin = 480, p_stock = ''high'', p_energy_rating = ''A++'',
         p_features = [''Induction'', ''Touch Control'', ''Bridge Function'']\<rparr>,
        \<lparr>p_brand = ''V-Zug'', p_model = ''AdoraID V4000'', p_price = 1800,
         p_margin = 360, p_stock = ''medium'', p_energy_rating = ''A+'',
         p_features = [''Induction'', ''Touch Control'']\<rparr>,
        \<lparr>p_brand = ''Miele'', p_model = ''KM 7897 FL'', p_price = 2800,
         p_margin = 560, p_stock = ''low'', p_energy_rating = ''A++'',
         p_features = [''Induction'', ''Con@ct 2.0'', ''PowerFlex'']\<rparr>,
        \<lparr>p_brand = ''Siemens'', p_model = ''EX875LYC1E'', p_price = 1200,
         p_margin = 240, p_stock = ''high'', p_energy_rating = ''A'',
         p_features = [''Induction'', ''Touch Control'']\<rparr>]),
     (''dishwasher'',
       [\<lparr>p_brand = ''V-Zug'', p_model = ''Adora SL V4000'', p_price = 1600,
         p_margin = 320, p_stock = ''high'', p_energy_rating = ''A+++'',
         p_features = [''OptiDos'', ''EcoManagement'', ''Silence Program'']\<rparr>,
        \<lparr>p_brand = ''Miele'', p_model = ''G 7960 SCVi'', p_price = 2200,
         p_margin = 440, p_stock = ''medium'', p_energy_rating = ''A+++'',
         p_features = [''AutoDos'', ''Perfect GlassCare'', ''3D+ Cutlery Tray'']\<rparr>]),
     (''oven'',
       [\<lparr>p_brand = ''V-Zug'', p_model = ''Combair V6000 Supreme'', p_price = 3200,
         p_margin = 640, p_stock = ''medium'', p_energy_rating = ''A++'',
         p_features = [''Steam Cooking'', ''Automatic Programs'', ''Moisture Plus'']\<rparr>,
        \<lparr>p_brand = ''Siemens'', p_model = ''HB678GBS6'', p_price = 1800,
         p_margin = 360, p_stock = ''high'', p_energy_rating = ''A+'',
         p_features = [''PerfectBake'', ''coolStart'', ''ecoClean Direct'']\<rparr>])]"

text \<open>
  The hidden state of Python's \<^verbatim>\<open>random\<close> module is made an explicit argument: the
  list of raw numbers the generator will deliver next.  \<open>randint a b\<close> consumes one
  of them and answers a number between \<open>a\<close> and \<open>b\<close> inclusive, with the rest of the
  list as the generator's new state.
\<close>

type_synonym rng = "nat list"

definition randint :: "int \<Rightarrow> int \<Rightarrow> rng \<Rightarrow> int \<times> rng" where
  "randint a b g =
     (case g of [] \<Rightarrow> (a, []) | r # g' \<Rightarrow> (a + int r mod (b - a + 1), g'))"

section \<open>The enrichment stage\<close>

record sap_data =
  estimated_repair_cost :: int
  parts_availability :: string
  labor_cost :: rat
  parts_cost :: rat
  estimated_repair_time :: string
  technician_availability :: string

text \<open>
  The matching loop shared by \<^verbatim>\<open>simulate_sap_integration\<close> and
  \<^verbatim>\<open>technical_analyst_agent\<close>: the first entry of \<^verbatim>\<open>common_errors\<close>, in
  declaration order, whose lower-cased code occurs in the description or one of whose
  description words does.
\<close>

definition lookup_common_errors :: "string \<Rightarrow> string \<Rightarrow> (string \<times> error_info) list" where
  "lookup_common_errors dt b =
     (case map_of APPLIANCE_DATA dt of
        None \<Rightarrow> []
      | Some brands \<Rightarrow> (case map_of brands b of None \<Rightarrow> [] | Some dd \<Rightarrow> common_errors dd))"

definition error_matches :: "string \<Rightarrow> string \<times> error_info \<Rightarrow> bool" where
  "error_matches error_desc e =
     (substr_in (lower (fst e)) error_desc
      \<or> list_ex (\<lambda>word. substr_in word error_desc) (split_ws (lower (ei_description (snd e)))))"

definition simulate_sap_integration :: "string \<Rightarrow> string \<Rightarrow> string \<Rightarrow> rng \<Rightarrow> sap_data \<times> rng" where
  "simulate_sap_integration dt b error_desc g =
     (let (base_cost, availability) =
            (case find (error_matches error_desc) (lookup_common_errors dt b) of
               None \<Rightarrow> (300, ''medium'')
             | Some e \<Rightarrow> (ei_repair_cost (snd e),
                          if ei_success_rate (snd e) > 9 / 10 then ''high'' else ''medium''));
          (jitter, g') = randint (- 50) 100 g;
          repair_cost = base_cost + jitter
      in (\<lparr>estimated_repair_cost = repair_cost,
           parts_availability = availability,
           labor_cost = of_int repair_cost * (4 / 10),
           parts_cost = of_int repair_cost * (6 / 10),
           estimated_repair_time = ''2-5 business days'',
           technician_availability = ''next week''\<rparr>, g'))"

datatype brands = BrandName string | BrandList "string list"

record service_entry =
  se_date :: string
  se_device :: string
  se_issue :: string
  se_satisfaction :: rat

record preferences =
  preferred_brands :: "brands option"
  budget_range :: "string option"
  installation_preference :: "string option"
  warranty_preference :: "string option"

text \<open>
  A customer dictionary: every key may be absent (\<open>None\<close>), as in the empty
  dictionary \<open>{}\<close> that the later stages use as default.
\<close>

record customer_data =
  customer_id :: "string option"
  customer_name :: "string option"
  customer_tier :: "string option"
  brand_loyalty :: "brands option"
  service_history :: "service_entry list option"
  customer_prefs :: "preferences option"
  last_service_satisfaction :: "rat option"
  total_purchases :: "int option"

definition simulate_salesforce_integration :: "string \<Rightarrow> rng \<Rightarrow> customer_data \<times> rng" where
  "simulate_salesforce_integration b g =
     (let (n, g') = randint 10000 99999 g
      in (\<lparr>customer_id = Some (''CUST_'' @ str_int n),
           customer_name = Some ''Premium Customer'',
           customer_tier = Some ''Gold'',
           brand_loyalty = Some (BrandName b),
           service_history = Some
             [\<lparr>se_date = ''2023-08-15'', se_device = ''Dishwasher'',
               se_issue = ''Pump replacement'', se_satisfaction = 45 / 10\<rparr>,
              \<lparr>se_date = ''2022-11-20'', se_device = ''Oven'',
               se_issue = ''Door seal repair'', se_satisfaction = 48 / 10\<rparr>],
           customer_prefs = Some
             \<lparr>preferred_brands = Some (BrandList [b, ''V-Zug'', ''Miele'']),
              budget_range = Some ''premium'',
              installation_preference = Some ''professional'',
              warranty_preference = Some ''extended''\<rparr>,
           last_service_satisfaction = Some (46 / 10),
           total_purchases = Some 85000\<rparr>, g'))"

record specifications =
  original_purchase_price :: int
  current_market_value :: rat
  spec_energy_rating :: string
  installation_dimensions :: string
  warranty_remaining :: int

record market_analysis =
  replacement_models_available :: nat
  average_replacement_cost :: rat
  inventory_status :: string
  delivery_time :: string

text \<open>
  The dictionary \<^verbatim>\<open>simulate_pim_integration\<close> returns, with its top-level keys as
  the source writes them: two nested dictionaries and one number.
\<close>

datatype pim_entry = Specifications specifications | MarketAnalysis market_analysis | Score int

type_synonym pim_data = "(string \<times> pim_entry) list"

definition simulate_pim_integration :: "string \<Rightarrow> string \<Rightarrow> int \<Rightarrow> pim_data" where
  "simulate_pim_integration dt b a =
     (let original_value =
            (case map_of [(''cooktop'', 2000), (''dishwasher'', 1500), (''oven'', 2500)] dt of
               None \<Rightarrow> 1800 | Some v \<Rightarrow> v);
          depreciation_rate = 8 / 100;
          current_value = of_int original_value * py_pow (1 - depreciation_rate) a;
          replacement_options =
            (case map_of REPLACEMENT_PRODUCTS dt of None \<Rightarrow> [] | Some ps \<Rightarrow> ps)
      in [(''specifications'', Specifications
            \<lparr>original_purchase_price = original_value,
             current_market_value = max current_value (of_int original_value * (1 / 10)),
             spec_energy_rating = (if a < 5 then ''A+'' else ''A''),
             installation_dimensions = ''60x60x85 cm'',
             warranty_remaining = (if a \<le> 2 then max 0 (2 - a) else 0)\<rparr>),
          (''market_analysis'', MarketAnalysis
            \<lparr>replacement_models_available = length replacement_options,
             average_replacement_cost =
               (if replacement_options \<noteq> []
                then of_int (sum_list (map p_price replacement_options))
                     / of_nat (length replacement_options)
                else 2000),
             inventory_status = ''good'',
             delivery_time = ''1-2 weeks''\<rparr>),
          (''sustainability_score'', Score (max (10 - a) 1))])"

datatype py_error = KeyError | TypeError | AttributeError | IndexError

record enrichment =
  en_repair_cost :: int
  en_spare_part_availability :: string
  en_customer_data :: customer_data
  en_device_specs :: specifications
  en_cost_ceiling :: rat
  en_sap_data :: sap_data
  en_salesforce_data :: customer_data
  en_pim_data :: pim_data

text \<open>
  \<^verbatim>\<open>data_enrichment_agent\<close> (agents.py, lines 186-222).  The device value is read
  with \<^verbatim>\<open>pim_data.get("current_market_value", 1000)\<close>, a lookup among the top-level
  keys of the dictionary; the specifications are read with
  \<^verbatim>\<open>pim_data["specifications"]\<close>.  A lookup that finds a value of another shape
  than the arithmetic needs is a Python error.
\<close>

definition data_enrichment_agent :: "'a case_inputs_scheme \<Rightarrow> rng \<Rightarrow> (py_error + enrichment) \<times> rng" where
  "data_enrichment_agent state g =
     (let dt = lower (device_type state);
          b = brand state;
          a = age state;
          error_desc = lower (error_description state);
          (sap, g1) = simulate_sap_integration dt b error_desc g;
          (salesforce, g2) = simulate_salesforce_integration b g1;
          pim = simulate_pim_integration dt b a
      in (case (case map_of pim ''current_market_value'' of
                  None \<Rightarrow> Inr 1000
                | Some (Score v) \<Rightarrow> Inr (of_int v)
                | Some _ \<Rightarrow> Inl TypeError) of
            Inl e \<Rightarrow> (Inl e, g2)
          | Inr device_value \<Rightarrow>
              let cost_ceiling =
                    (if a > 10 then min (max (device_value * (6 / 10)) 1800) 2500
                     else min (device_value * (6 / 10)) 800)
              in (case map_of pim ''specifications'' of
                    None \<Rightarrow> (Inl KeyError, g2)
                  | Some (Specifications specs) \<Rightarrow>
                      (Inr \<lparr>en_repair_cost = estimated_repair_cost sap,
                            en_spare_part_availability = parts_availability sap,
                            en_customer_data = salesforce,
                            en_device_specs = specs,
                            en_cost_ceiling = cost_ceiling,
                            en_sap_data = sap,
                            en_salesforce_data = salesforce,
                            en_pim_data = pim\<rparr>, g2)
                  | Some _ \<Rightarrow> (Inl TypeError, g2))))"

section \<open>The recommendation stage and its artifacts\<close>

text \<open>
  Python's float rounding and formatting are not computed here: \<^verbatim>\<open>round(x, 1)\<close>,
  \<^verbatim>\<open>round(x, 2)\<close>, \<^verbatim>\<open>int(x)\<close>, \<^verbatim>\<open>str(x)\<close> and the format specifications
  \<^verbatim>\<open>.1f\<close>, \<^verbatim>\<open>.0f\<close> and \<^verbatim>\<open>.0%\<close> are the fields of a parameter, and every theorem
  below holds for all of its values.
\<close>

record float_ops =
  round1 :: "rat \<Rightarrow> rat"
  round2 :: "rat \<Rightarrow> rat"
  float_to_int :: "rat \<Rightarrow> int"
  fmt_num :: "rat \<Rightarrow> string"
  fmt_1f :: "rat \<Rightarrow> string"
  fmt_0f :: "rat \<Rightarrow> string"
  fmt_pct0 :: "rat \<Rightarrow> string"

record technical_analysis =
  matched_error_pattern :: "string option"
  age_impact_factor :: rat
  estimated_timeline :: string
  required_expertise :: string
  parts_complexity :: string
  risk_assessment :: string

record margin_analysis =
  repair_roi :: rat
  best_replacement_margin :: int
  economic_score :: rat
  cost_effectiveness_ratio :: rat

text \<open>
  The keys of \<^verbatim>\<open>ServiceCaseState\<close> that the recommendation stage reads, beside the
  four inputs.  \<open>None\<close> is an absent key, for which \<^verbatim>\<open>state.get(key, default)\<close>
  answers the default.  \<^verbatim>\<open>customer_preferences\<close> is \<^verbatim>\<open>Optional[Dict]\<close> with the
  default \<^verbatim>\<open>None\<close> in the request model (main.py, line 56): \<open>None\<close> is the absent
  key, \<open>Some None\<close> the key holding \<^verbatim>\<open>None\<close>, \<open>Some (Some d)\<close> a dictionary.
  The last five fields are the keys the final nodes of the workflow write.
\<close>

record ServiceCaseState = case_inputs +
  customer_preferences :: "preferences option option"
  triage_decision :: "triage_decision option"
  repair_cost :: "rat option"
  customer_data :: "customer_data option"
  cost_ceiling :: "rat option"
  sap_data :: "sap_data option"
  warranty_status :: "string option"
  repair_probability :: "rat option"
  repair_complexity :: "string option"
  technical_analysis :: "technical_analysis option"
  economic_viability :: "string option"
  economic_reasoning :: "string option"
  margin_analysis :: "margin_analysis option"

record repair_order =
  order_id :: string
  ro_device_type :: string
  ro_brand :: string
  ro_age :: int
  ro_error_description :: string
  ro_parts_cost :: rat
  ro_labor_cost :: rat
  ro_total_cost :: rat
  ro_estimated_duration :: string
  ro_technician_availability :: string
  ro_parts_delivery :: string
  ro_warranty_status :: string
  ro_repair_warranty :: string
  ro_coverage :: string
  ro_priority :: string
  ro_skill_level_required :: string
  ro_assignment_duration :: string
  ro_assignment_priority :: string
  ro_follow_up_required :: bool
  ro_customer_satisfaction_survey :: bool
  ro_warranty_registration :: bool
  ro_special_instructions :: string
  created_timestamp :: string
  ro_status :: string

text \<open>
  \<^verbatim>\<open>generate_repair_order\<close> (agents.py, lines 568-610).  The order id is drawn from
  the random source and the timestamp is read from the clock (\<^verbatim>\<open>datetime.now()\<close>),
  here the argument \<open>now\<close>.  The key \<^verbatim>\<open>complexity\<close> is not among the keys of the
  technical-analysis dictionary, so its lookup answers the default.
\<close>

definition generate_repair_order :: "'a ServiceCaseState_scheme \<Rightarrow> rng \<Rightarrow> string \<Rightarrow> repair_order \<times> rng" where
  "generate_repair_order state g now =
     (let (n, g') = randint 100000 999999 g;
          timeline = (case technical_analysis state of
                        None \<Rightarrow> ''3-5 days'' | Some t \<Rightarrow> estimated_timeline t)
      in (\<lparr>order_id = ''REP_'' @ str_int n,
           ro_device_type = device_type state,
           ro_brand = brand state,
           ro_age = age state,
           ro_error_description = error_description state,
           ro_parts_cost = (case sap_data state of None \<Rightarrow> 0 | Some s \<Rightarrow> parts_cost s),
           ro_labor_cost = (case sap_data state of None \<Rightarrow> 0 | Some s \<Rightarrow> labor_cost s),
           ro_total_cost = (case repair_cost state of None \<Rightarrow> 0 | Some c \<Rightarrow> c),
           ro_estimated_duration = timeline,
           ro_technician_availability =
             (case sap_data state of None \<Rightarrow> ''next week'' | Some s \<Rightarrow> technician_availability s),
           ro_parts_delivery = ''2-3 days'',
           ro_warranty_status =
             (case warranty_status state of None \<Rightarrow> ''out_of_warranty'' | Some w \<Rightarrow> w),
           ro_repair_warranty = ''6 months'',
           ro_coverage = ''parts and labor'',
           ro_priority = ''standard'',
           ro_skill_level_required = ''standard'',
           ro_assignment_duration = timeline,
           ro_assignment_priority =
             (if substr_in ''urgent'' (lower (error_description state))
              then ''high'' else ''standard''),
           ro_follow_up_required = True,
           ro_customer_satisfaction_survey = True,
           ro_warranty_registration = True,
           ro_special_instructions =
             ''Follow standard safety protocols. Customer preferred contact: email'',
           created_timestamp = now,
           ro_status = ''created''\<rparr>, g'))"

subsection \<open>The replacement ranker\<close>

definition get_delivery_estimate :: "string \<Rightarrow> string" where
  "get_delivery_estimate stock_level =
     (case map_of [(''high'', ''1-2 weeks''), (''medium'', ''2-3 weeks''),
                   (''low'', ''3-4 weeks''), (''out_of_stock'', ''4-6 weeks'')] stock_level of
        None \<Rightarrow> ''2-3 weeks'' | Some d \<Rightarrow> d)"

definition get_warranty_years :: "string \<Rightarrow> int" where
  "get_warranty_years b = (if b \<in> set [''V-Zug'', ''Miele''] then 3 else 2)"

definition estimate_trade_in_value :: "float_ops \<Rightarrow> int \<Rightarrow> string \<Rightarrow> int" where
  "estimate_trade_in_value fl device_age dt =
     (let base_value =
            (case map_of [(''cooktop'', 200), (''oven'', 300), (''dishwasher'', 250)] dt of
               None \<Rightarrow> 200 | Some v \<Rightarrow> v);
          depreciation_rate = 15 / 100;
          trade_in = of_int base_value * max (1 / 10) (py_pow (1 - depreciation_rate) device_age)
      in float_to_int fl trade_in)"

record tco =
  initial_cost :: int
  annual_operating_cost :: int
  tco_10_years :: int
  monthly_cost :: rat

definition calculate_tco :: "float_ops \<Rightarrow> product \<Rightarrow> int \<Rightarrow> tco" where
  "calculate_tco fl p current_age =
     (let purchase_price = p_price p;
          annual_energy_cost = (if p_energy_rating p \<in> set [''A+++'', ''A++''] then 120 else 150);
          annual_maintenance = 50;
          total = purchase_price + (annual_energy_cost + annual_maintenance) * 10
      in \<lparr>initial_cost = purchase_price,
          annual_operating_cost = annual_energy_cost + annual_maintenance,
          tco_10_years = total,
          monthly_cost = round2 fl (of_int total / 120)\<rparr>)"

record sustainability =
  energy_savings_percent :: int
  co2_reduction_kg_year :: rat
  device_lifespan_extension :: int
  recyclability_score :: string

definition get_sustainability_score :: "product \<Rightarrow> int \<Rightarrow> sustainability" where
  "get_sustainability_score p current_age =
     (let energy_savings = (if p_energy_rating p \<in> set [''A+++'', ''A++''] then 30 else 15);
          years_extended = max 0 (12 - current_age)
      in \<lparr>energy_savings_percent = energy_savings,
          co2_reduction_kg_year = of_int energy_savings * (5 / 2),
          device_lifespan_extension = years_extended,
          recyclability_score =
            (if p_brand p \<in> set [''V-Zug'', ''Miele''] then ''High'' else ''Medium'')\<rparr>)"

text \<open>
  \<^verbatim>\<open>brand in brands\<close>: substring search when the right operand is a string
  (\<^verbatim>\<open>brand_loyalty\<close> is one), membership when it is a list.
\<close>

definition in_brands :: "string \<Rightarrow> brands \<Rightarrow> bool" where
  "in_brands b bs = (case bs of BrandName s \<Rightarrow> substr_in b s | BrandList l \<Rightarrow> b \<in> set l)"

definition empty_preferences :: preferences where
  "empty_preferences = \<lparr>preferred_brands = None, budget_range = None,
                         installation_preference = None, warranty_preference = None\<rparr>"

definition empty_customer_data :: customer_data where
  "empty_customer_data = \<lparr>customer_id = None, customer_name = None, customer_tier = None,
     brand_loyalty = None, service_history = None, customer_prefs = None,
     last_service_satisfaction = None, total_purchases = None\<rparr>"

fun join :: "string \<Rightarrow> string list \<Rightarrow> string" where
  "join sep [] = []"
| "join sep [x] = x"
| "join sep (x # y # ys) = x @ sep @ join sep (y # ys)"

definition bullet_sep :: string where
  "bullet_sep = [CHR '' '', CHR 0xE2, CHR 0x80, CHR 0xA2, CHR '' '']"

definition get_recommendation_reason :: "product \<Rightarrow> rat \<Rightarrow> preferences \<Rightarrow> string" where
  "get_recommendation_reason p score prefs =
     (let reasons =
            (if in_brands (p_brand p)
                  (case preferred_brands prefs of None \<Rightarrow> BrandList [] | Some bs \<Rightarrow> bs)
             then [''Matches your brand preference''] else [])
            @ (if p_stock p = ''high'' then [''Available for quick delivery''] else [])
            @ (if p_energy_rating p \<in> set [''A+++'', ''A++'']
               then [''Excellent energy efficiency''] else [])
            @ (if score > 80 then [''Outstanding overall value'']
               else if score > 60 then [''Great value proposition''] else [])
            @ (if p_margin p > 400 then [''Competitive pricing''] else []);
          reasons' = (if reasons = [] then [''Good fit for your requirements''] else reasons)
      in join bullet_sep (take 3 reasons'))"

record scoring_breakdown =
  sb_brand_loyalty :: string
  sb_margin_optimization :: string
  sb_inventory_availability :: string
  sb_energy_efficiency :: string
  sb_technology_upgrade :: string
  sb_price_value :: string

text \<open>
  A scored product: the catalog entry (\<^verbatim>\<open>product.copy()\<close>) with the keys that
  \<^verbatim>\<open>update\<close> adds to it.
\<close>

record scored_product =
  sp_product :: product
  recommendation_score :: rat
  scoring_details :: scoring_breakdown
  estimated_delivery :: string
  installation_included :: bool
  sp_warranty_years :: int
  trade_in_value :: int
  financing_available :: bool
  recommended_reason :: string
  total_cost_of_ownership :: tco
  sustainability_impact :: sustainability

record offer = scored_product +
  ranking_position :: nat
  recommendation_confidence :: string

fun list_max :: "int list \<Rightarrow> int" where
  "list_max [] = 0"
| "list_max [x] = x"
| "list_max (x # y # ys) = max x (list_max (y # ys))"

text \<open>
  The body of the scoring loop for one product of the budget-filtered list \<open>bf\<close>.
  Its first statement calls \<^verbatim>\<open>customer_preferences.get\<close>, which raises
  \<^verbatim>\<open>AttributeError\<close> on \<^verbatim>\<open>None\<close>.
\<close>

definition score_product ::
  "float_ops \<Rightarrow> string \<Rightarrow> customer_data \<Rightarrow> preferences option \<Rightarrow> int \<Rightarrow> product list
     \<Rightarrow> product \<Rightarrow> py_error + scored_product" where
  "score_product fl dt cdata cprefs current_device_age bf p =
     (case cprefs of
        None \<Rightarrow> Inl AttributeError
      | Some prefs \<Rightarrow>
          let customer_brands =
                (case preferred_brands prefs of
                   Some bs \<Rightarrow> bs
                 | None \<Rightarrow> (case brand_loyalty cdata of Some bl \<Rightarrow> bl | None \<Rightarrow> BrandList []));
              brand_score = (if in_brands (p_brand p) customer_brands then 25 else (10::int));
              max_margin = (if bf \<noteq> [] then list_max (map p_margin bf) else p_margin p);
              margin_score =
                (if max_margin > 0 then (of_int (p_margin p) / of_int max_margin) * 25 else (0::rat));
              stock_score =
                (case map_of [(''high'', 20), (''medium'', 12), (''low'', 5), (''out_of_stock'', 0)]
                        (p_stock p) of None \<Rightarrow> (0::int) | Some v \<Rightarrow> v);
              energy_score =
                (case map_of [(''A+++'', 15), (''A++'', 12), (''A+'', 9), (''A'', 6), (''B'', 3)]
                        (p_energy_rating p) of None \<Rightarrow> (0::int) | Some v \<Rightarrow> v);
              upgrade_score =
                (if current_device_age > 8 then 10 else if current_device_age > 4 then 6 else (2::int));
              avg_price =
                (if bf \<noteq> [] then of_int (sum_list (map p_price bf)) / of_nat (length bf)
                 else (of_int (p_price p) :: rat));
              price_score =
                (if of_int (p_price p) \<le> avg_price * (9 / 10) then 5
                 else if of_int (p_price p) \<le> avg_price * (11 / 10) then 3 else (1::int));
              score = of_int brand_score + margin_score + of_int stock_score
                      + of_int energy_score + of_int upgrade_score + of_int price_score
          in Inr \<lparr>sp_product = p,
                  recommendation_score = round1 fl score,
                  scoring_details =
                    \<lparr>sb_brand_loyalty =
                       (if in_brands (p_brand p) customer_brands
                        then ''Preferred brand match: +'' @ str_int brand_score
                        else ''Alternative brand: +'' @ str_int brand_score),
                     sb_margin_optimization = ''Margin score: +'' @ fmt_1f fl margin_score,
                     sb_inventory_availability =
                       ''Stock level ('' @ p_stock p @ ''): +'' @ str_int stock_score,
                     sb_energy_efficiency =
                       ''Energy rating ('' @ p_energy_rating p @ ''): +'' @ str_int energy_score,
                     sb_technology_upgrade =
                       (if current_device_age > 8 then ''Significant technology upgrade: +10''
                        else if current_device_age > 4 then ''Moderate technology upgrade: +6''
                        else ''Minimal upgrade benefit: +2''),
                     sb_price_value =
                       (if of_int (p_price p) \<le> avg_price * (9 / 10)
                        then ''Excellent value (below avg price): +5''
                        else if of_int (p_price p) \<le> avg_price * (11 / 10)
                        then ''Good value (avg price): +3''
                        else ''Premium pricing: +1'')\<rparr>,
                  estimated_delivery = get_delivery_estimate (p_stock p),
                  installation_included = True,
                  sp_warranty_years = get_warranty_years (p_brand p),
                  trade_in_value = estimate_trade_in_value fl current_device_age dt,
                  financing_available = (p_price p > 1500),
                  recommended_reason = get_recommendation_reason p score prefs,
                  total_cost_of_ownership = calculate_tco fl p current_device_age,
                  sustainability_impact = get_sustainability_score p current_device_age\<rparr>)"

text \<open>The loop over the products stops at the first exception.\<close>

fun traverse :: "('a \<Rightarrow> 'e + 'b) \<Rightarrow> 'a list \<Rightarrow> 'e + 'b list" where
  "traverse f [] = Inr []"
| "traverse f (x # xs) =
     (case f x of
        Inl e \<Rightarrow> Inl e
      | Inr y \<Rightarrow> (case traverse f xs of Inl e \<Rightarrow> Inl e | Inr ys \<Rightarrow> Inr (y # ys)))"

definition confidence_label :: "rat \<Rightarrow> string" where
  "confidence_label score =
     (if score > 70 then ''High'' else if score > 50 then ''Medium'' else ''Standard'')"

fun add_ranking :: "nat \<Rightarrow> scored_product list \<Rightarrow> offer list" where
  "add_ranking i [] = []"
| "add_ranking i (p # ps) =
     scored_product.extend p
       \<lparr>ranking_position = i + 1,
        recommendation_confidence = confidence_label (recommendation_score p)\<rparr>
     # add_ranking (i + 1) ps"

text \<open>
  \<^verbatim>\<open>generate_replacement_options\<close> (agents.py, lines 612-713), over a catalog given as
  argument.  \<^verbatim>\<open>sort(key=..., reverse=True)\<close> is a stable sort into descending order
  of the key: the stable insertion sort on the negated key.
\<close>

definition rank_replacement_options ::
  "(string \<times> product list) list \<Rightarrow> float_ops \<Rightarrow> 'a ServiceCaseState_scheme
     \<Rightarrow> py_error + offer list" where
  "rank_replacement_options catalog fl state =
     (let dt = lower (device_type state);
          cdata = (case customer_data state of None \<Rightarrow> empty_customer_data | Some c \<Rightarrow> c);
          cprefs = (case customer_preferences state of
                      None \<Rightarrow> Some empty_preferences | Some v \<Rightarrow> v);
          ceiling = (case cost_ceiling state of None \<Rightarrow> 2000 | Some c \<Rightarrow> c);
          current_device_age = age state;
          available_products = (case map_of catalog dt of None \<Rightarrow> [] | Some ps \<Rightarrow> ps);
          flexibility_multiplier = (if current_device_age > 10 then 2 else 3 / 2);
          max_price = ceiling * flexibility_multiplier;
          budget_filtered = filter (\<lambda>p. of_int (p_price p) \<le> max_price) available_products
      in case traverse (score_product fl dt cdata cprefs current_device_age budget_filtered)
                budget_filtered of
           Inl e \<Rightarrow> Inl e
         | Inr scored_products \<Rightarrow>
             Inr (add_ranking 0
                    (take 3 (sort_key (\<lambda>p. - recommendation_score p) scored_products))))"

definition generate_replacement_options ::
  "float_ops \<Rightarrow> 'a ServiceCaseState_scheme \<Rightarrow> py_error + offer list" where
  "generate_replacement_options = rank_replacement_options REPLACEMENT_PRODUCTS"

subsection \<open>Synthesis\<close>

record agent_reasoning =
  ar_triage :: "triage_decision option"
  ar_probability :: rat
  ar_complexity :: string
  ar_risk :: string
  ar_viability :: string
  ar_score :: rat
  ar_reasoning :: string
  ar_confidence :: rat
  ar_override_applied :: bool
  ar_override_reason :: "string option"

record recommendation =
  rec_recommendation :: string
  rec_repair_order :: "repair_order option"
  rec_replacement_options :: "offer list"
  rec_justification :: string
  rec_confidence_score :: rat
  rec_agent_reasoning :: agent_reasoning

text \<open>
  \<^verbatim>\<open>recommendation_engine_agent\<close> (agents.py, lines 482-566) in three parts: the
  values it gathers with their defaults (lines 486-494), the confidence score
  (lines 495-499), the override logic (lines 501-513), and the assembly of the result
  (lines 515-566).
\<close>

definition gathered_viability :: "'a ServiceCaseState_scheme \<Rightarrow> string" where
  "gathered_viability state = (case economic_viability state of None \<Rightarrow> ''repair'' | Some v \<Rightarrow> v)"

definition gathered_probability :: "'a ServiceCaseState_scheme \<Rightarrow> rat" where
  "gathered_probability state = (case repair_probability state of None \<Rightarrow> 75 / 100 | Some p \<Rightarrow> p)"

definition gathered_customer :: "'a ServiceCaseState_scheme \<Rightarrow> customer_data" where
  "gathered_customer state = (case customer_data state of None \<Rightarrow> empty_customer_data | Some c \<Rightarrow> c)"

definition gathered_score :: "'a ServiceCaseState_scheme \<Rightarrow> rat" where
  "gathered_score state = (case margin_analysis state of None \<Rightarrow> 50 | Some m \<Rightarrow> economic_score m)"

definition synthesis_confidence :: "'a ServiceCaseState_scheme \<Rightarrow> rat" where
  "synthesis_confidence state =
     (let technical_confidence = gathered_probability state * 100;
          final_score = gathered_score state * (6 / 10) + technical_confidence * (4 / 10)
      in min (final_score / 100) (95 / 100))"

definition synthesis_decision :: "'a ServiceCaseState_scheme \<Rightarrow> string \<times> string option" where
  "synthesis_decision state =
     (if gathered_probability state < 6 / 10
      then (''replace'', Some ''Low technical success probability'')
      else if gathered_probability state > 9 / 10
              \<and> customer_tier (gathered_customer state) = Some ''Gold''
      then (''repair'', Some ''High success probability with premium customer'')
      else (gathered_viability state, None))"

definition synthesis_justification :: "float_ops \<Rightarrow> 'a ServiceCaseState_scheme \<Rightarrow> string" where
  "synthesis_justification fl state =
     (let (final_recommendation, override_reason) = synthesis_decision state;
          justification_parts =
            (if final_recommendation = ''repair''
             then [''Technical Analysis: '' @ fmt_pct0 fl (gathered_probability state)
                     @ '' success probability'',
                   ''Economic Analysis: Score '' @ fmt_num fl (gathered_score state) @ ''/100'',
                   ''Customer: ''
                     @ (case customer_tier (gathered_customer state) of
                          None \<Rightarrow> ''Standard'' | Some t \<Rightarrow> t)
                     @ '' tier'']
                  @ (case override_reason of None \<Rightarrow> [] | Some r \<Rightarrow> [''Override: '' @ r])
             else [''Replacement offers better value proposition'',
                   ''Potential margin: ''
                     @ str_int (case margin_analysis state of
                                  None \<Rightarrow> 0 | Some m \<Rightarrow> best_replacement_margin m)
                     @ '' CHF'',
                   ''Technical risk: ''
                     @ fmt_0f fl (100 - gathered_probability state * 100) @ ''%''])
      in join '' | '' justification_parts)"

definition synthesis_reasoning :: "'a ServiceCaseState_scheme \<Rightarrow> agent_reasoning" where
  "synthesis_reasoning state =
     \<lparr>ar_triage = triage_decision state,
      ar_probability = gathered_probability state,
      ar_complexity = (case repair_complexity state of None \<Rightarrow> ''unknown'' | Some c \<Rightarrow> c),
      ar_risk = (case technical_analysis state of
                   None \<Rightarrow> ''medium'' | Some t \<Rightarrow> risk_assessment t),
      ar_viability = gathered_viability state,
      ar_score = gathered_score state,
      ar_reasoning = (case economic_reasoning state of None \<Rightarrow> [] | Some r \<Rightarrow> r),
      ar_confidence = synthesis_confidence state,
      ar_override_applied = (snd (synthesis_decision state) \<noteq> None),
      ar_override_reason = snd (synthesis_decision state)\<rparr>"

text \<open>
  The artifacts (lines 531-537): a repair order when the final recommendation is
  \<^verbatim>\<open>"repair"\<close>, the ranker's list otherwise.  An exception of the ranker leaves
  the stage.
\<close>

definition recommendation_engine_agent ::
  "float_ops \<Rightarrow> 'a ServiceCaseState_scheme \<Rightarrow> rng \<Rightarrow> string \<Rightarrow> (py_error + recommendation) \<times> rng" where
  "recommendation_engine_agent fl state g now =
     (let final_recommendation = fst (synthesis_decision state)
      in if final_recommendation = ''repair''
         then (let (order, g') = generate_repair_order state g now
               in (Inr \<lparr>rec_recommendation = final_recommendation,
                        rec_repair_order = Some order,
                        rec_replacement_options = [],
                        rec_justification = synthesis_justification fl state,
                        rec_confidence_score = synthesis_confidence state,
                        rec_agent_reasoning = synthesis_reasoning state\<rparr>, g'))
         else (case generate_replacement_options fl state of
                 Inl e \<Rightarrow> (Inl e, g)
               | Inr options \<Rightarrow>
                   (Inr \<lparr>rec_recommendation = final_recommendation,
                         rec_repair_order = None,
                         rec_replacement_options = options,
                         rec_justification = synthesis_justification fl state,
                         rec_confidence_score = synthesis_confidence state,
                         rec_agent_reasoning = synthesis_reasoning state\<rparr>, g)))"

subsection \<open>The final nodes of the workflow\<close>







section \<open>The business rules engine\<close>

subsection \<open>Values of the case data and of the rule file\<close>

text \<open>
  The case data and the comparison values of the rules are JSON values as Python holds
  them.  A dictionary is the list of its items in insertion order, with distinct keys.
  A float is the rational number it denotes.
\<close>

datatype pyval =
    PNone
  | PBool bool
  | PInt int
  | PFloat rat
  | PStr string
  | PList "pyval list"
  | PDict "(string \<times> pyval) list"

text \<open>\<^verbatim>\<open>bool\<close>, \<^verbatim>\<open>int\<close> and \<^verbatim>\<open>float\<close> compare with each other by their numeric value.\<close>

fun num_of :: "pyval \<Rightarrow> rat option" where
  "num_of (PBool b) = Some (if b then 1 else 0)"
| "num_of (PInt i) = Some (of_int i)"
| "num_of (PFloat r) = Some r"
| "num_of v = None"

text \<open>
  \<^verbatim>\<open>a == b\<close>, which never raises: numbers by value, strings and \<^verbatim>\<open>None\<close> by
  identity of content, lists item by item, dictionaries key by key.
\<close>

fun py_eq :: "pyval \<Rightarrow> pyval \<Rightarrow> bool"
  and py_eq_list :: "pyval list \<Rightarrow> pyval list \<Rightarrow> bool"
  and py_eq_items :: "(string \<times> pyval) list \<Rightarrow> (string \<times> pyval) list \<Rightarrow> bool" where
  "py_eq (PList xs) (PList ys) = py_eq_list xs ys"
| "py_eq (PDict xs) (PDict ys) = (length xs = length ys \<and> py_eq_items xs ys)"
| "py_eq (PStr s) (PStr t) = (s = t)"
| "py_eq PNone PNone = True"
| "py_eq a b = (case (num_of a, num_of b) of (Some x, Some y) \<Rightarrow> x = y | _ \<Rightarrow> False)"
| "py_eq_list [] [] = True"
| "py_eq_list (x # xs) (y # ys) = (py_eq x y \<and> py_eq_list xs ys)"
| "py_eq_list xs ys = False"
| "py_eq_items [] ys = True"
| "py_eq_items (kv # xs) ys =
     ((case map_of ys (fst kv) of None \<Rightarrow> False | Some w \<Rightarrow> py_eq (snd kv) w)
      \<and> py_eq_items xs ys)"

text \<open>Strings order by their characters' codes.\<close>

fun str_lt :: "string \<Rightarrow> string \<Rightarrow> bool" where
  "str_lt [] [] = False"
| "str_lt [] (y # ys) = True"
| "str_lt (x # xs) [] = False"
| "str_lt (x # xs) (y # ys) =
     ((of_char x :: nat) < of_char y \<or> (x = y \<and> str_lt xs ys))"

datatype cmp_op = Gt | Lt | Ge | Le

fun cmp_rat :: "cmp_op \<Rightarrow> rat \<Rightarrow> rat \<Rightarrow> bool" where
  "cmp_rat Gt x y = (x > y)"
| "cmp_rat Lt x y = (x < y)"
| "cmp_rat Ge x y = (x \<ge> y)"
| "cmp_rat Le x y = (x \<le> y)"

fun cmp_str :: "cmp_op \<Rightarrow> string \<Rightarrow> string \<Rightarrow> bool" where
  "cmp_str Gt s t = str_lt t s"
| "cmp_str Lt s t = str_lt s t"
| "cmp_str Ge s t = (\<not> str_lt s t)"
| "cmp_str Le s t = (\<not> str_lt t s)"

text \<open>The comparison of two lists that agree on their common prefix: by length.\<close>

fun cmp_len :: "cmp_op \<Rightarrow> nat \<Rightarrow> nat \<Rightarrow> bool" where
  "cmp_len Gt m n = (m > n)"
| "cmp_len Lt m n = (m < n)"
| "cmp_len Ge m n = (m \<ge> n)"
| "cmp_len Le m n = (m \<le> n)"

text \<open>
  \<^verbatim>\<open>a > b\<close>, \<^verbatim>\<open>a < b\<close>, \<^verbatim>\<open>a >= b\<close> and \<^verbatim>\<open>a <= b\<close>: defined between two numbers,
  two strings and two lists (at the first pair of items that are not equal), and a
  \<^verbatim>\<open>TypeError\<close> between any other two values.
\<close>

fun py_cmp :: "cmp_op \<Rightarrow> pyval \<Rightarrow> pyval \<Rightarrow> py_error + bool"
  and py_cmp_list :: "cmp_op \<Rightarrow> pyval list \<Rightarrow> pyval list \<Rightarrow> py_error + bool" where
  "py_cmp opr (PStr s) (PStr t) = Inr (cmp_str opr s t)"
| "py_cmp opr (PList xs) (PList ys) = py_cmp_list opr xs ys"
| "py_cmp opr a b =
     (case (num_of a, num_of b) of
        (Some x, Some y) \<Rightarrow> Inr (cmp_rat opr x y)
      | _ \<Rightarrow> Inl TypeError)"
| "py_cmp_list opr (x # xs) (y # ys) =
     (if py_eq x y then py_cmp_list opr xs ys else py_cmp opr x y)"
| "py_cmp_list opr xs ys = Inr (cmp_len opr (length xs) (length ys))"

text \<open>
  \<^verbatim>\<open>a in c\<close>: membership in a list, substring of a string (a \<^verbatim>\<open>TypeError\<close> unless
  the left operand is a string), key of a dictionary (a \<^verbatim>\<open>TypeError\<close> for an
  unhashable left operand), and a \<^verbatim>\<open>TypeError\<close> for a right operand that is not
  iterable.
\<close>

fun py_in :: "pyval \<Rightarrow> pyval \<Rightarrow> py_error + bool" where
  "py_in a (PList xs) = Inr (list_ex (\<lambda>x. py_eq x a) xs)"
| "py_in (PStr t) (PStr s) = Inr (substr_in t s)"
| "py_in a (PStr s) = Inl TypeError"
| "py_in (PList l) (PDict kvs) = Inl TypeError"
| "py_in (PDict d) (PDict kvs) = Inl TypeError"
| "py_in (PStr k) (PDict kvs) = Inr (k \<in> set (map fst kvs))"
| "py_in a (PDict kvs) = Inr False"
| "py_in a c = Inl TypeError"

text \<open>
  \<^verbatim>\<open>str(v)\<close>.  The text of a float, a list or a dictionary is not computed here:
  it is given by the parameter \<open>repr\<close>, and the theorems hold for every value of it.
\<close>

fun py_str :: "(pyval \<Rightarrow> string) \<Rightarrow> pyval \<Rightarrow> string" where
  "py_str repr (PStr s) = s"
| "py_str repr (PInt i) = str_int i"
| "py_str repr (PBool b) = (if b then ''True'' else ''False'')"
| "py_str repr PNone = ''None''"
| "py_str repr v = repr v"

subsection \<open>Conditions\<close>

text \<open>
  A condition of a rule.  \<open>cond_value\<close> is \<^verbatim>\<open>condition.get("value")\<close>, \<open>PNone\<close>
  when the key is absent; \<open>cond_value_field\<close> is \<^verbatim>\<open>condition.get("value_field")\<close>,
  \<open>None\<close> when absent; \<open>cond_match_any\<close> is \<^verbatim>\<open>condition.get("match_any", False)\<close>.
\<close>

record rule_condition =
  cond_field :: string
  cond_operator :: string
  cond_value :: pyval
  cond_value_field :: "string option"
  cond_match_any :: bool

text \<open>\<^verbatim>\<open>s.split(".")\<close>\<close>

fun split_on_from :: "char \<Rightarrow> string \<Rightarrow> string \<Rightarrow> string list" where
  "split_on_from sep cur [] = [cur]"
| "split_on_from sep cur (c # cs) =
     (if c = sep then cur # split_on_from sep [] cs else split_on_from sep (cur @ [c]) cs)"

definition split_dots :: "string \<Rightarrow> string list" where
  "split_dots s = split_on_from CHR ''.'' [] s"

text \<open>
  \<^verbatim>\<open>_get_nested_value\<close> (decision_engine.py, lines 382-394): the loop over the keys of
  the path; \<open>PNone\<close> is the \<^verbatim>\<open>None\<close> it returns when a key is missing or the value
  at hand is not a dictionary.
\<close>

fun walk_keys :: "pyval \<Rightarrow> string list \<Rightarrow> pyval" where
  "walk_keys v [] = v"
| "walk_keys (PDict kvs) (key # keys) =
     (case map_of kvs key of None \<Rightarrow> PNone | Some v \<Rightarrow> walk_keys v keys)"
| "walk_keys v (key # keys) = PNone"

definition get_nested_value :: "pyval \<Rightarrow> string \<Rightarrow> pyval" where
  "get_nested_value data field_path = walk_keys data (split_dots field_path)"

text \<open>
  \<^verbatim>\<open>any(val.lower() in str(actual_value).lower() for val in expected_value)\<close> and
  the same with \<^verbatim>\<open>all\<close>; \<open>hay\<close> is the lower-cased text of the actual value.  An
  item that is not a string has no method \<^verbatim>\<open>lower\<close>.
\<close>

fun any_contains :: "string \<Rightarrow> pyval list \<Rightarrow> py_error + bool" where
  "any_contains hay [] = Inr False"
| "any_contains hay (PStr s # vs) =
     (if substr_in (lower s) hay then Inr True else any_contains hay vs)"
| "any_contains hay (v # vs) = Inl AttributeError"

fun all_contains :: "string \<Rightarrow> pyval list \<Rightarrow> py_error + bool" where
  "all_contains hay [] = Inr True"
| "all_contains hay (PStr s # vs) =
     (if substr_in (lower s) hay then all_contains hay vs else Inr False)"
| "all_contains hay (v # vs) = Inl AttributeError"

text \<open>
  \<^verbatim>\<open>_evaluate_single_condition\<close> (decision_engine.py, lines 336-380).  An empty
  \<^verbatim>\<open>value_field\<close> is falsy.
\<close>

definition evaluate_single_condition ::
  "(pyval \<Rightarrow> string) \<Rightarrow> rule_condition \<Rightarrow> pyval \<Rightarrow> py_error + bool" where
  "evaluate_single_condition repr condition case_data =
     (let operator = cond_operator condition;
          actual_value = get_nested_value case_data (cond_field condition)
      in if actual_value = PNone then Inr False
         else
           let dynamic = (case cond_value_field condition of
                            None \<Rightarrow> False | Some vf \<Rightarrow> vf \<noteq> []);
               expected_value =
                 (if dynamic then get_nested_value case_data (the (cond_value_field condition))
                  else cond_value condition)
           in if dynamic \<and> expected_value = PNone then Inr False
              else if operator = ''equals'' then Inr (py_eq actual_value expected_value)
              else if operator = ''gt'' then py_cmp Gt actual_value expected_value
              else if operator = ''lt'' then py_cmp Lt actual_value expected_value
              else if operator = ''gte'' then py_cmp Ge actual_value expected_value
              else if operator = ''lte'' then py_cmp Le actual_value expected_value
              else if operator = ''contains'' then
                (case expected_value of
                   PList vals \<Rightarrow>
                     (if cond_match_any condition
                      then any_contains (lower (py_str repr actual_value)) vals
                      else all_contains (lower (py_str repr actual_value)) vals)
                 | _ \<Rightarrow> Inr (substr_in (lower (py_str repr expected_value))
                                       (lower (py_str repr actual_value))))
              else if operator = ''in_list'' then py_in actual_value expected_value
              else if operator = ''not_in_list'' then
                (case py_in actual_value expected_value of
                   Inl e \<Rightarrow> Inl e | Inr b \<Rightarrow> Inr (\<not> b))
              else Inr False)"

text \<open>
  \<^verbatim>\<open>_evaluate_rule_conditions\<close> (lines 328-334): the conditions in order, stopping
  at the first that is false; an exception of a condition leaves the loop.
\<close>

fun evaluate_rule_conditions ::
  "(pyval \<Rightarrow> string) \<Rightarrow> rule_condition list \<Rightarrow> pyval \<Rightarrow> py_error + bool" where
  "evaluate_rule_conditions repr [] case_data = Inr True"
| "evaluate_rule_conditions repr (c # cs) case_data =
     (case evaluate_single_condition repr c case_data of
        Inl e \<Rightarrow> Inl e
      | Inr b \<Rightarrow> if b then evaluate_rule_conditions repr cs case_data else Inr False)"

subsection \<open>Rules and their evaluation\<close>

text \<open>
  A rule; \<open>rule_weight\<close> is \<^verbatim>\<open>rule.get("weight", 0)\<close> and \<open>rule_override\<close> is
  \<^verbatim>\<open>rule.get("override", False)\<close>, the only ways the engine reads these keys.  The
  rule sets are the items of \<^verbatim>\<open>self.rules["rule_sets"]\<close> in insertion order.
\<close>

record rule =
  rule_name :: string
  rule_conditions :: "rule_condition list"
  rule_action :: string
  rule_weight :: int
  rule_override :: bool
  rule_reasoning :: string

record rule_set =
  rs_priority :: "int option"
  rs_rules :: "rule list"

type_synonym rule_sets = "(string \<times> rule_set) list"

record applied_rule =
  ap_rule_set :: string
  ap_rule_name :: string
  ap_action :: string
  ap_reasoning :: string
  ap_weight :: int
  ap_override :: bool

record results =
  res_final_recommendation :: "string option"
  res_confidence_score :: rat
  res_applied_rules :: "applied_rule list"
  res_rule_weights :: "(string \<times> int) list"
  res_override_applied :: bool
  res_reasoning_chain :: "string list"

definition action_to_recommendation :: "string \<Rightarrow> string" where
  "action_to_recommendation action =
     (case map_of [(''recommend_repair'', ''repair''), (''recommend_replace'', ''replace''),
                   (''refer_manufacturer'', ''manufacturer''), (''manual_review'', ''manual''),
                   (''escalate'', ''manual'')] action of
        None \<Rightarrow> ''repair'' | Some r \<Rightarrow> r)"

text \<open>The local variables of \<^verbatim>\<open>evaluate_rules\<close> that the loops update.\<close>

record scan_state =
  st_results :: results
  st_total_weight :: int
  st_recommendation_weights :: "(string \<times> int) list"

definition initial_scan_state :: scan_state where
  "initial_scan_state =
     \<lparr>st_results = \<lparr>res_final_recommendation = None, res_confidence_score = 0,
                     res_applied_rules = [], res_rule_weights = [],
                     res_override_applied = False, res_reasoning_chain = []\<rparr>,
      st_total_weight = 0,
      st_recommendation_weights =
        [(''repair'', 0), (''replace'', 0), (''manufacturer'', 0), (''manual'', 0)]\<rparr>"

text \<open>
  How the body of the loops ends: with an exception, with the \<^verbatim>\<open>return\<close> of an
  override rule, or by going on to the next rule.
\<close>

datatype scan = Raise py_error | Return results | Go scan_state

text \<open>\<^verbatim>\<open>recommendation_weights[recommendation] += weight\<close>\<close>

definition add_weight :: "string \<Rightarrow> int \<Rightarrow> (string \<times> int) list \<Rightarrow> (string \<times> int) list" where
  "add_weight r w ws = map (\<lambda>kv. if fst kv = r then (fst kv, snd kv + w) else kv) ws"

text \<open>The body of the inner loop (lines 283-308) for one rule.\<close>

definition apply_rule ::
  "(pyval \<Rightarrow> string) \<Rightarrow> pyval \<Rightarrow> string \<Rightarrow> scan_state \<Rightarrow> rule \<Rightarrow> scan" where
  "apply_rule repr case_data rule_set_name st r =
     (case evaluate_rule_conditions repr (rule_conditions r) case_data of
        Inl e \<Rightarrow> Raise e
      | Inr matched \<Rightarrow>
          if \<not> matched then Go st
          else
            let res = st_results st;
                res1 = res\<lparr>res_applied_rules := res_applied_rules res @
                         [\<lparr>ap_rule_set = rule_set_name, ap_rule_name = rule_name r,
                           ap_action = rule_action r, ap_reasoning = rule_reasoning r,
                           ap_weight = rule_weight r, ap_override = rule_override r\<rparr>]\<rparr>
            in if rule_override r
               then Return (res1\<lparr>res_override_applied := True,
                                  res_final_recommendation :=
                                    Some (action_to_recommendation (rule_action r)),
                                  res_confidence_score := 1,
                                  res_reasoning_chain :=
                                    res_reasoning_chain res1 @ [rule_reasoning r]\<rparr>)
               else if rule_weight r > 0
               then Go \<lparr>st_results = res1\<lparr>res_reasoning_chain :=
                                              res_reasoning_chain res1 @ [rule_reasoning r]\<rparr>,
                        st_total_weight = st_total_weight st + rule_weight r,
                        st_recommendation_weights =
                          add_weight (action_to_recommendation (rule_action r)) (rule_weight r)
                            (st_recommendation_weights st)\<rparr>
               else Go (st\<lparr>st_results := res1\<rparr>))"

fun scan_rules ::
  "(pyval \<Rightarrow> string) \<Rightarrow> pyval \<Rightarrow> string \<Rightarrow> scan_state \<Rightarrow> rule list \<Rightarrow> scan" where
  "scan_rules repr case_data rule_set_name st [] = Go st"
| "scan_rules repr case_data rule_set_name st (r # rs) =
     (case apply_rule repr case_data rule_set_name st r of
        Go st' \<Rightarrow> scan_rules repr case_data rule_set_name st' rs
      | Return res \<Rightarrow> Return res
      | Raise e \<Rightarrow> Raise e)"

fun scan_rule_sets ::
  "(pyval \<Rightarrow> string) \<Rightarrow> pyval \<Rightarrow> scan_state \<Rightarrow> rule_sets \<Rightarrow> scan" where
  "scan_rule_sets repr case_data st [] = Go st"
| "scan_rule_sets repr case_data st (g # gs) =
     (case scan_rules repr case_data (fst g) st (rs_rules (snd g)) of
        Go st' \<Rightarrow> scan_rule_sets repr case_data st' gs
      | Return res \<Rightarrow> Return res
      | Raise e \<Rightarrow> Raise e)"

text \<open>
  The final recommendation from the weights (lines 310-324).  The confidence is the
  exact quotient; Python returns the float nearest to it.
\<close>

definition weighted_recommendation :: "scan_state \<Rightarrow> py_error + results" where
  "weighted_recommendation st =
     (let res = st_results st;
          ws = st_recommendation_weights st
      in if st_total_weight st > 0
         then
           let max_weight = list_max (map snd ws)
           in (case filter (\<lambda>kv. snd kv = max_weight) ws of
                 [] \<Rightarrow> Inl IndexError
               | kv # _ \<Rightarrow>
                   Inr (res\<lparr>res_rule_weights := ws,
                            res_final_recommendation := Some (fst kv),
                            res_confidence_score :=
                              min (of_int max_weight / of_int (st_total_weight st)) 1\<rparr>))
         else Inr (res\<lparr>res_final_recommendation := Some ''repair'',
                        res_confidence_score := 1 / 2,
                        res_reasoning_chain := res_reasoning_chain res @
                          [''No specific rules matched - using default recommendation'']\<rparr>))"

text \<open>
  \<^verbatim>\<open>sorted(items, key=priority)\<close> is a stable sort, and so is \<open>sort_key\<close>.
\<close>

definition sorted_rule_sets :: "rule_sets \<Rightarrow> rule_sets" where
  "sorted_rule_sets rule_sets =
     sort_key (\<lambda>g. case rs_priority (snd g) of None \<Rightarrow> 999 | Some p \<Rightarrow> p) rule_sets"

text \<open>\<^verbatim>\<open>evaluate_rules\<close> (decision_engine.py, lines 256-326).\<close>

definition evaluate_rules :: "(pyval \<Rightarrow> string) \<Rightarrow> rule_sets \<Rightarrow> pyval \<Rightarrow> py_error + results" where
  "evaluate_rules repr rule_sets case_data =
     (case scan_rule_sets repr case_data initial_scan_state (sorted_rule_sets rule_sets) of
        Raise e \<Rightarrow> Inl e
      | Return res \<Rightarrow> Inr res
      | Go st \<Rightarrow> weighted_recommendation st)"

section \<open>Example case records\<close>


text \<open>Some value of the float parameter, for the concrete runs below.\<close>

definition demo_float_ops :: float_ops where
  "demo_float_ops = \<lparr>round1 = (\<lambda>x. x), round2 = (\<lambda>x. x), float_to_int = (\<lambda>x. \<lfloor>x\<rfloor>),
     fmt_num = (\<lambda>x. []), fmt_1f = (\<lambda>x. []), fmt_0f = (\<lambda>x. []), fmt_pct0 = (\<lambda>x. [])\<rparr>"

text \<open>A three-year-old cooktop after the analysis stages, with a verdict for repair.\<close>

definition demo_repair_state :: ServiceCaseState where
  "demo_repair_state = \<lparr>device_type = ''cooktop'', brand = ''V-Zug'', age = 3,
     error_description = ''F7 E3 heating element not working'',
     customer_preferences = None, triage_decision = None, repair_cost = Some 250,
     customer_data = None, cost_ceiling = Some 600, sap_data = None,
     warranty_status = Some ''out_of_warranty'', repair_probability = Some (81 / 100),
     repair_complexity = Some ''medium'', technical_analysis = None,
     economic_viability = Some ''repair'', economic_reasoning = None,
     margin_analysis = Some \<lparr>repair_roi = 5, best_replacement_margin = 480,
                              economic_score = 85, cost_effectiveness_ratio = 1 / 6\<rparr>\<rparr>"

text \<open>
  A fifteen-year-old oven whose \<^verbatim>\<open>customer_preferences\<close> key holds \<^verbatim>\<open>None\<close>, the
  default of the request model.
\<close>

definition null_preferences_state :: ServiceCaseState where
  "null_preferences_state = \<lparr>device_type = ''oven'', brand = ''Siemens'', age = 15,
     error_description = ''Complete control board failure'',
     customer_preferences = Some None, triage_decision = None, repair_cost = Some 350,
     customer_data = None, cost_ceiling = Some 1800, sap_data = None,
     warranty_status = Some ''out_of_warranty'', repair_probability = Some (3 / 8),
     repair_complexity = Some ''high'', technical_analysis = None,
     economic_viability = Some ''replace'', economic_reasoning = None,
     margin_analysis = None\<rparr>"



section \<open>Triage: the safety keywords and the age routes\<close>

text \<open>
  C1.  The claim gives the safety keywords priority over both age routes, so that a
  report containing "smoke" is routed to \<open>urgent_manufacturer\<close> at every age and
  category.  The source tests the two age routes first.  For a fifteen-year-old oven
  whose (non-empty) report contains "smoke" in mixed case, the triage stage answers
  \<open>replacement_focus\<close>, and for a one-year-old oven with the same report it answers
  \<open>manufacturer\<close>; neither is \<open>urgent_manufacturer\<close>.
\<close>

theorem triage_smoke_not_urgent_for_old_or_new_oven:
  "substr_in ''smoke'' (lower ''Smoke coming from unit'')
   \<and> triage_agent \<lparr>device_type = ''oven'', brand = ''Siemens'', age = 15,
                    error_description = ''Smoke coming from unit''\<rparr>
       = \<lparr>td_status = ''complete'', td_route = ''replacement_focus'',
          td_reasoning = ''Device age 15 years exceeds typical lifespan''\<rparr>
   \<and> td_route (triage_agent \<lparr>device_type = ''oven'', brand = ''Siemens'', age = 1,
                    error_description = ''Smoke coming from unit''\<rparr>) = ''manufacturer''"
  by code_simp

section \<open>Facts about the enrichment stage\<close>

lemma lower_cooktop: "lower ''cooktop'' = ''cooktop''" by code_simp
lemma lower_oven: "lower ''oven'' = ''oven''" by code_simp

lemma pim_no_market_value_key:
  "map_of (simulate_pim_integration dt b a) ''current_market_value'' = None"
  by (simp add: simulate_pim_integration_def Let_def)


lemma pim_cooktop_age_1:
  "map_of (simulate_pim_integration ''cooktop'' b 1) ''specifications'' =
     Some (Specifications \<lparr>original_purchase_price = 2000, current_market_value = 1840,
             spec_energy_rating = ''A+'', installation_dimensions = ''60x60x85 cm'',
             warranty_remaining = 1\<rparr>)"
  by (simp add: simulate_pim_integration_def Let_def py_pow_def)

text \<open>The enrichment stage never raises, and its output in terms of the three integrations.\<close>

lemma data_enrichment_agent_result:
  assumes s: "simulate_sap_integration (lower (device_type state)) (brand state)
                (lower (error_description state)) g = (sap, g1)"
    and f: "simulate_salesforce_integration (brand state) g1 = (sf, g2)"
    and p: "map_of (simulate_pim_integration (lower (device_type state)) (brand state) (age state))
              ''specifications'' = Some (Specifications specs)"
  shows "data_enrichment_agent state g =
           (Inr \<lparr>en_repair_cost = estimated_repair_cost sap,
                 en_spare_part_availability = parts_availability sap,
                 en_customer_data = sf,
                 en_device_specs = specs,
                 en_cost_ceiling = (if age state > 10 then 1800 else 600),
                 en_sap_data = sap,
                 en_salesforce_data = sf,
                 en_pim_data = simulate_pim_integration (lower (device_type state)) (brand state)
                                 (age state)\<rparr>, g2)"
  unfolding data_enrichment_agent_def Let_def s
  by (simp add: f p pim_no_market_value_key)

section \<open>Enrichment: the cost ceiling\<close>

text \<open>
  C9.  The claim computes the cost ceiling from the device's current market value:
  \<open>min (value * 0.6) 800\<close> for a device of at most ten years.  The enrichment stage
  reads the value with \<^verbatim>\<open>pim_data.get("current_market_value", 1000)\<close>, but the key
  lies one level down, under \<^verbatim>\<open>"specifications"\<close>, so the lookup always answers
  the default 1000 and the ceiling is 600 up to the age of ten and 1800 above
  (\<open>data_enrichment_agent_result\<close>).  For a one-year-old cooktop, whatever the random
  source delivers, the market value is 1840, the claimed ceiling is 800, and the stage
  returns the ceiling 600.
\<close>

theorem enrichment_cost_ceiling_ignores_market_value:
  "\<exists>r. fst (data_enrichment_agent
               \<lparr>device_type = ''cooktop'', brand = ''V-Zug'', age = 1,
                error_description = ''Display flickers''\<rparr> g) = Inr r
       \<and> current_market_value (en_device_specs r) = 1840
       \<and> min (current_market_value (en_device_specs r) * (6 / 10)) 800 = 800
       \<and> en_cost_ceiling r = 600"
proof -
  let ?st = "\<lparr>device_type = ''cooktop'', brand = ''V-Zug'', age = 1,
              error_description = ''Display flickers''\<rparr>"
  obtain sap g1 where s:
    "simulate_sap_integration (lower (device_type ?st)) (brand ?st)
       (lower (error_description ?st)) g = (sap, g1)"
    by (cases "simulate_sap_integration (lower (device_type ?st)) (brand ?st)
       (lower (error_description ?st)) g")
  obtain sf g2 where f: "simulate_salesforce_integration (brand ?st) g1 = (sf, g2)"
    by (cases "simulate_salesforce_integration (brand ?st) g1")
  have p: "map_of (simulate_pim_integration (lower (device_type ?st)) (brand ?st) (age ?st))
             ''specifications'' =
           Some (Specifications \<lparr>original_purchase_price = 2000, current_market_value = 1840,
             spec_energy_rating = ''A+'', installation_dimensions = ''60x60x85 cm'',
             warranty_remaining = 1\<rparr>)"
    by (simp add: lower_cooktop pim_cooktop_age_1)
  show ?thesis
    by (simp add: data_enrichment_agent_result [OF s f p])
qed

section \<open>Facts about the random source and the artifacts\<close>








section \<open>Determinism of the stages\<close>




section \<open>Facts about the ranker\<close>


lemma traverse_raises_at_head: "f x = Inl e \<Longrightarrow> traverse f (x # xs) = Inl e"
  by simp






lemma score_product_returns:
  "score_product fl dt cdata (Some prefs) a bf p = Inr y \<Longrightarrow> sp_product y = p"
  by (auto simp: score_product_def Let_def)


section \<open>Facts about the recommendation stage\<close>

lemma synthesis_returns_for_repair:
  "fst (synthesis_decision state) = ''repair'' \<Longrightarrow>
     \<exists>out. fst (recommendation_engine_agent fl state g now) = Inr out"
  by (simp add: recommendation_engine_agent_def Let_def case_prod_beta)

lemma synthesis_confidence_returned:
  "fst (recommendation_engine_agent fl state g now) = Inr out \<Longrightarrow>
     rec_confidence_score out = synthesis_confidence state"
  by (auto simp: recommendation_engine_agent_def Let_def case_prod_beta
           split: if_splits sum.splits)

lemma demo_repair_decision: "fst (synthesis_decision demo_repair_state) = ''repair''"
  by (simp add: synthesis_decision_def gathered_probability_def gathered_viability_def
                gathered_customer_def demo_repair_state_def)

lemma map_of_oven:
  "map_of REPLACEMENT_PRODUCTS ''oven'' = Some
       [\<lparr>p_brand = ''V-Zug'', p_model = ''Combair V6000 Supreme'', p_price = 3200,
         p_margin = 640, p_stock = ''medium'', p_energy_rating = ''A++'',
         p_features = [''Steam Cooking'', ''Automatic Programs'', ''Moisture Plus'']\<rparr>,
        \<lparr>p_brand = ''Siemens'', p_model = ''HB678GBS6'', p_price = 1800,
         p_margin = 360, p_stock = ''high'', p_energy_rating = ''A+'',
         p_features = [''PerfectBake'', ''coolStart'', ''ecoClean Direct'']\<rparr>]"
  by (simp add: REPLACEMENT_PRODUCTS_def)


lemma score_product_null_preferences:
  "score_product fl dt cdata None a bf p = Inl AttributeError"
  by (simp add: score_product_def)







section \<open>Synthesis: the confidence score\<close>

text \<open>
  C7.  Whenever the recommendation stage returns, the confidence it returns is
  \<open>min 0.95 ((economic_score * 0.6 + repair_probability * 100 * 0.4) / 100)\<close>, where
  the economic score and the repair probability are the values read from the record
  (50 and 0.75 when the keys are absent); for an economic score between 0 and 100 and
  a repair probability between 0 and 1 the confidence lies between 0 and 0.95.  The
  arithmetic is exact here; Python evaluates the same expression in floating point.
\<close>

theorem synthesis_confidence_formula_and_range:
  assumes "fst (recommendation_engine_agent fl state g now) = Inr out"
    and "es = (case margin_analysis state of None \<Rightarrow> 50 | Some m \<Rightarrow> economic_score m)"
    and "rp = (case repair_probability state of None \<Rightarrow> 75 / 100 | Some p \<Rightarrow> p)"
  shows "rec_confidence_score out = min (95 / 100) ((es * (6 / 10) + rp * 100 * (4 / 10)) / 100)
         \<and> (0 \<le> es \<and> es \<le> 100 \<and> 0 \<le> rp \<and> rp \<le> 1
              \<longrightarrow> 0 \<le> rec_confidence_score out \<and> rec_confidence_score out \<le> 95 / 100)"
proof -
  have c: "rec_confidence_score out = min (95 / 100) ((es * (6 / 10) + rp * 100 * (4 / 10)) / 100)"
    using synthesis_confidence_returned [OF assms(1)] assms(2,3)
    by (simp add: synthesis_confidence_def gathered_score_def gathered_probability_def
                  Let_def min.commute)
  have "0 \<le> es \<Longrightarrow> 0 \<le> rp \<Longrightarrow> 0 \<le> (es * (6 / 10) + rp * 100 * (4 / 10)) / 100"
    by simp
  then show ?thesis using c by (auto simp: min_def)
qed

theorem synthesis_confidence_formula_and_range_witness:
  "\<exists>out. fst (recommendation_engine_agent demo_float_ops demo_repair_state [7] ''2024-05-01T10:00:00'')
            = Inr out
        \<and> rec_confidence_score out = 834 / 1000
        \<and> 0 \<le> rec_confidence_score out \<and> rec_confidence_score out \<le> 95 / 100"
proof -
  obtain out where out:
    "fst (recommendation_engine_agent demo_float_ops demo_repair_state [7] ''2024-05-01T10:00:00'')
       = Inr out"
    using synthesis_returns_for_repair [OF demo_repair_decision] by blast
  have es: "85 = (case margin_analysis demo_repair_state of
                    None \<Rightarrow> 50 | Some m \<Rightarrow> economic_score m)"
    by (simp add: demo_repair_state_def)
  have rp: "81 / 100 = (case repair_probability demo_repair_state of
                          None \<Rightarrow> 75 / 100 | Some p \<Rightarrow> p)"
    by (simp add: demo_repair_state_def)
  have "rec_confidence_score out
          = min (95 / 100) ((85 * (6 / 10) + (81 / 100) * 100 * (4 / 10)) / 100)"
    using synthesis_confidence_formula_and_range [OF out es rp] by (rule conjunct1)
  then have c: "rec_confidence_score out = 834 / 1000" by simp
  show ?thesis
  proof (intro exI conjI)
    show "fst (recommendation_engine_agent demo_float_ops demo_repair_state [7]
                 ''2024-05-01T10:00:00'') = Inr out" by (rule out)
    show "rec_confidence_score out = 834 / 1000" by (rule c)
    show "0 \<le> rec_confidence_score out" unfolding c by simp
    show "rec_confidence_score out \<le> 95 / 100" unfolding c by simp
  qed
qed

section \<open>The replacement ranker and null preferences\<close>

text \<open>
  C10.  \<^verbatim>\<open>generate_replacement_options\<close> is not total: for the fifteen-year-old oven
  whose \<^verbatim>\<open>customer_preferences\<close> key is present and holds \<^verbatim>\<open>None\<close>, two catalog
  products are within the budget, the scoring loop runs, and its first statement
  dereferences the preferences: the function raises \<^verbatim>\<open>AttributeError\<close> instead of
  returning a list, and so does the recommendation stage, whose final recommendation
  for this record is \<^verbatim>\<open>replace\<close>.
\<close>

theorem replacement_options_raise_on_null_preferences:
  "customer_preferences null_preferences_state = Some None
   \<and> (\<forall>fl. generate_replacement_options fl null_preferences_state = Inl AttributeError)
   \<and> (\<forall>fl g now. fst (recommendation_engine_agent fl null_preferences_state g now)
                    = Inl AttributeError)"
proof -
  have a: "generate_replacement_options fl null_preferences_state = Inl AttributeError" for fl
    unfolding generate_replacement_options_def rank_replacement_options_def Let_def
    by (simp add: null_preferences_state_def lower_oven map_of_oven
                  score_product_null_preferences)
  have d: "fst (synthesis_decision null_preferences_state) = ''replace''"
    by (simp add: synthesis_decision_def gathered_probability_def null_preferences_state_def)
  have b: "fst (recommendation_engine_agent fl null_preferences_state g now) = Inl AttributeError"
    for fl g now
    unfolding recommendation_engine_agent_def Let_def d
    by (simp add: a)
  have c: "customer_preferences null_preferences_state = Some None"
    by (simp add: null_preferences_state_def)
  show ?thesis using a b c by blast
qed

section \<open>The artifacts of a finished case\<close>




section \<open>The order of the ranked offers\<close>




end
